theory Spec2Isabelle
  imports Complex_Main "HOL-Library.Word"
begin

section \<open>JavaScript values used by the player component\<close>

subsection \<open>Numbers\<close>

text \<open>
  A JavaScript number is an IEEE double. The model keeps every special value the
  handlers can meet (\<open>NaN\<close>, both infinities, negative zero) and takes a finite value as
  an exact real: rounding, overflow and underflow of finite arithmetic are not modelled.
  \<open>Finite 0\<close> is positive zero, \<open>NZero\<close> is negative zero.
\<close>

datatype jsnum = NaN | PInf | NInf | NZero | Finite real

fun is_negative :: "jsnum \<Rightarrow> bool" where
  "is_negative NaN = False"
| "is_negative PInf = False"
| "is_negative NInf = True"
| "is_negative NZero = True"
| "is_negative (Finite r) = (r < 0)"

fun is_infinite :: "jsnum \<Rightarrow> bool" where
  "is_infinite PInf = True"
| "is_infinite NInf = True"
| "is_infinite _ = False"

fun is_zero :: "jsnum \<Rightarrow> bool" where
  "is_zero NZero = True"
| "is_zero (Finite r) = (r = 0)"
| "is_zero _ = False"

fun magnitude :: "jsnum \<Rightarrow> real" where
  "magnitude (Finite r) = r"
| "magnitude _ = 0"

definition signed_zero :: "bool \<Rightarrow> jsnum" where
  "signed_zero neg = (if neg then NZero else Finite 0)"

definition signed_inf :: "bool \<Rightarrow> jsnum" where
  "signed_inf neg = (if neg then NInf else PInf)"

text \<open>The operator \<open>/\<close> on numbers, case by case as the language defines it.\<close>

definition js_div :: "jsnum \<Rightarrow> jsnum \<Rightarrow> jsnum" where
  "js_div a b =
     (let neg = (is_negative a \<noteq> is_negative b) in
      if a = NaN \<or> b = NaN then NaN
      else if is_infinite a then (if is_infinite b then NaN else signed_inf neg)
      else if is_infinite b then signed_zero neg
      else if is_zero b then (if is_zero a then NaN else signed_inf neg)
      else if is_zero a then signed_zero neg
      else Finite (magnitude a / magnitude b))"

text \<open>\<open>!x\<close> on a number: true exactly for the two zeros and \<open>NaN\<close>.\<close>

definition js_not :: "jsnum \<Rightarrow> bool" where
  "js_not x \<longleftrightarrow> is_zero x \<or> x = NaN"

text \<open>\<open>0 <= x && x <= 1\<close>: every comparison with \<open>NaN\<close> is false.\<close>

fun in_unit_interval :: "jsnum \<Rightarrow> bool" where
  "in_unit_interval (Finite r) = (0 \<le> r \<and> r \<le> 1)"
| "in_unit_interval NZero = True"
| "in_unit_interval _ = False"

subsection \<open>Strings\<close>

text \<open>
  A JavaScript string is a sequence of 16-bit code units; \<open>===\<close> on strings is equality
  of the sequences, and a string is truthy iff it is not empty.
\<close>

type_synonym jsstring = "16 word list"

definition of_ascii :: "string \<Rightarrow> jsstring" where
  "of_ascii s = map of_char s"

text \<open>
  \<open>String.prototype.trim\<close> strips white space and line terminators from both ends:
  TAB, VT, FF, the byte order mark, the space separators of Unicode, LF, CR, LS and PS.
\<close>

definition isWhiteSpace :: "16 word \<Rightarrow> bool" where
  "isWhiteSpace c \<longleftrightarrow>
     c = 0x0009 \<or> c = 0x000B \<or> c = 0x000C \<or> c = 0xFEFF \<or>
     c = 0x0020 \<or> c = 0x00A0 \<or> c = 0x1680 \<or> (0x2000 \<le> c \<and> c \<le> 0x200A) \<or>
     c = 0x202F \<or> c = 0x205F \<or> c = 0x3000 \<or>
     c = 0x000A \<or> c = 0x000D \<or> c = 0x2028 \<or> c = 0x2029"

definition trim :: "jsstring \<Rightarrow> jsstring" where
  "trim s = rev (dropWhile isWhiteSpace (rev (dropWhile isWhiteSpace s)))"

section \<open>The component \<open>UrlPlayer\<close> (src/components/url-player.tsx)\<close>

subsection \<open>Data\<close>

text \<open>An entry of \<open>presetVideos\<close>; its field \<open>url\<close> is \<open>preset_url\<close> here.\<close>

record preset =
  key :: jsstring
  label :: jsstring
  preset_url :: jsstring

definition presetVideos :: "preset list" where
  "presetVideos =
     [\<lparr>key = [0x70ED, 0x5E26, 0x96E8, 0x6797],
       label = [0x70ED, 0x5E26, 0x96E8, 0x6797, 0x767D, 0x566A, 0x97F3],
       preset_url = of_ascii ''https://www.youtube.com/watch?v=kHr4yag0fqA''\<rparr>]"

text \<open>\<open>PlayerState\<close>: the type of \<open>initialState\<close> with \<open>src\<close> made optional.\<close>

record PlayerState =
  src :: "jsstring option"
  pip :: bool
  playing :: bool
  controls :: bool
  light :: bool
  volume :: jsnum
  muted :: bool
  played :: jsnum
  loaded :: jsnum
  duration :: jsnum
  playbackRate :: jsnum
  loop :: bool
  seeking :: bool
  loadedSeconds :: jsnum
  playedSeconds :: jsnum

definition initialState :: "jsstring \<Rightarrow> PlayerState" where
  "initialState defaultUrl =
     \<lparr>src = Some defaultUrl, pip = False, playing = False, controls = False,
      light = False, volume = Finite 1, muted = False, played = Finite 0,
      loaded = Finite 0, duration = Finite 0, playbackRate = Finite 1, loop = False,
      seeking = False, loadedSeconds = Finite 0, playedSeconds = Finite 0\<rparr>"

text \<open>The three \<open>useState\<close> cells of the component.\<close>

record UrlPlayer =
  state :: PlayerState
  url :: jsstring
  liked :: bool

definition mount :: "jsstring \<Rightarrow> UrlPlayer" where
  "mount defaultUrl = \<lparr>state = initialState defaultUrl, url = defaultUrl, liked = False\<rparr>"

text \<open>
  What the handlers read of the media element behind \<open>playerRef.current\<close>: its clock,
  its duration and its buffered ranges, a list of (start, end) pairs that may be
  undefined (the handlers use \<open>buffered?.\<close>). A handler takes the element as it is at
  the moment of the callback; \<open>None\<close> is a \<open>playerRef.current\<close> that is still null.
\<close>

record HTMLVideoElement =
  el_currentTime :: jsnum
  el_duration :: jsnum
  el_buffered :: "(jsnum \<times> jsnum) list option"

subsection \<open>Handlers\<close>

text \<open>
  Each handler is the state after its \<open>setState\<close> calls. The guards of
  \<open>handleProgress\<close> and \<open>handleTimeUpdate\<close> read \<open>state.seeking\<close> of the last render
  while the update runs on \<open>prevState\<close>; no handler ever writes \<open>seeking\<close>, so both
  hold the same value and one state models both.
\<close>

definition handlePlayPause :: "UrlPlayer \<Rightarrow> UrlPlayer" where
  "handlePlayPause c = c\<lparr>state := (state c)\<lparr>playing := \<not> playing (state c)\<rparr>\<rparr>"

definition handleStop :: "UrlPlayer \<Rightarrow> UrlPlayer" where
  "handleStop c = c\<lparr>state := (state c)\<lparr>src := None, playing := False\<rparr>\<rparr>"

definition handleToggleMuted :: "UrlPlayer \<Rightarrow> UrlPlayer" where
  "handleToggleMuted c = c\<lparr>state := (state c)\<lparr>muted := \<not> muted (state c)\<rparr>\<rparr>"

definition handleToggleLoop :: "UrlPlayer \<Rightarrow> UrlPlayer" where
  "handleToggleLoop c = c\<lparr>state := (state c)\<lparr>loop := \<not> loop (state c)\<rparr>\<rparr>"

definition handleProgress :: "HTMLVideoElement option \<Rightarrow> UrlPlayer \<Rightarrow> UrlPlayer" where
  "handleProgress playerRef c =
     (case playerRef of
        None \<Rightarrow> c
      | Some player \<Rightarrow>
          if seeking (state c) then c
          else (case el_buffered player of
                  None \<Rightarrow> c
                | Some [] \<Rightarrow> c
                | Some (r # rs) \<Rightarrow>
                    c\<lparr>state := (state c)
                        \<lparr>loadedSeconds := snd (last (r # rs)),
                         loaded := js_div (snd (last (r # rs))) (el_duration player)\<rparr>\<rparr>))"

definition handleTimeUpdate :: "HTMLVideoElement option \<Rightarrow> UrlPlayer \<Rightarrow> UrlPlayer" where
  "handleTimeUpdate playerRef c =
     (case playerRef of
        None \<Rightarrow> c
      | Some player \<Rightarrow>
          if seeking (state c) then c
          else if js_not (el_duration player) then c
          else c\<lparr>state := (state c)
                  \<lparr>playedSeconds := el_currentTime player,
                   played := js_div (el_currentTime player) (el_duration player)\<rparr>\<rparr>)"

definition handleEnded :: "UrlPlayer \<Rightarrow> UrlPlayer" where
  "handleEnded c = c\<lparr>state := (state c)\<lparr>playing := loop (state c)\<rparr>\<rparr>"

definition handleDurationChange :: "HTMLVideoElement option \<Rightarrow> UrlPlayer \<Rightarrow> UrlPlayer" where
  "handleDurationChange playerRef c =
     (case playerRef of
        None \<Rightarrow> c
      | Some player \<Rightarrow> c\<lparr>state := (state c)\<lparr>duration := el_duration player\<rparr>\<rparr>)"

definition handleLoadCustomUrl :: "UrlPlayer \<Rightarrow> UrlPlayer" where
  "handleLoadCustomUrl c =
     (if trim (url c) \<noteq> [] then c\<lparr>state := (state c)\<lparr>src := Some (url c)\<rparr>\<rparr> else c)"

definition handlePresetSelect :: "jsstring \<Rightarrow> UrlPlayer \<Rightarrow> UrlPlayer" where
  "handlePresetSelect selectedKey c =
     (case find (\<lambda>video. key video = selectedKey) presetVideos of
        None \<Rightarrow> c
      | Some selectedVideo \<Rightarrow>
          c\<lparr>url := preset_url selectedVideo,
            state := (state c)\<lparr>src := Some (preset_url selectedVideo)\<rparr>\<rparr>)"

text \<open>The inline callbacks \<open>onPlay\<close> and \<open>onPause\<close> of the player element.\<close>

definition onPlay :: "UrlPlayer \<Rightarrow> UrlPlayer" where
  "onPlay c = c\<lparr>state := (state c)\<lparr>playing := True\<rparr>\<rparr>"

definition onPause :: "UrlPlayer \<Rightarrow> UrlPlayer" where
  "onPause c = c\<lparr>state := (state c)\<lparr>playing := False\<rparr>\<rparr>"

text \<open>
  The two callbacks that the element fires while it plays, and a run of them delivered
  one after the other.
\<close>

datatype media_event =
  Progress "HTMLVideoElement option"
| TimeUpdate "HTMLVideoElement option"

fun deliver :: "UrlPlayer \<Rightarrow> media_event \<Rightarrow> UrlPlayer" where
  "deliver c (Progress p) = handleProgress p c"
| "deliver c (TimeUpdate p) = handleTimeUpdate p c"

definition deliver_all :: "UrlPlayer \<Rightarrow> media_event list \<Rightarrow> UrlPlayer" where
  "deliver_all c evs = foldl deliver c evs"

subsection \<open>The preset catalog as a mapping\<close>

text \<open>
  The catalog read as the specification describes it: a static mapping from a key to a
  playable URL. \<open>handlePresetSelect\<close> does not use it; the properties compare the two.
\<close>

definition catalog :: "jsstring \<rightharpoonup> jsstring" where
  "catalog = map_of (map (\<lambda>video. (key video, preset_url video)) presetVideos)"

subsection \<open>Concrete states and elements\<close>

definition rainforest :: jsstring where
  "rainforest = [0x70ED, 0x5E26, 0x96E8, 0x6797]"

definition typed_url :: "jsstring \<Rightarrow> UrlPlayer" where
  "typed_url text = (mount [])\<lparr>url := text\<rparr>"

definition scrubbing :: UrlPlayer where
  "scrubbing = (mount [])\<lparr>state := (initialState [])\<lparr>seeking := True\<rparr>\<rparr>"

definition element :: "jsnum \<Rightarrow> jsnum \<Rightarrow> (jsnum \<times> jsnum) list \<Rightarrow> HTMLVideoElement" where
  "element t d ranges = \<lparr>el_currentTime = t, el_duration = d, el_buffered = Some ranges\<rparr>"

definition halfway :: HTMLVideoElement where
  "halfway = element (Finite 30) (Finite 120) [(Finite 0, Finite 60)]"

section \<open>The duration formatter\<close>

text \<open>
  Modelled from the spec: the module \<open>./duration\<close>, which url-player.tsx imports as
  \<open>Duration\<close>, is not among the source files. The formatter below follows section 4.3
  of the specification: a non-finite or negative input renders as 00:00; otherwise the
  whole seconds are shown as MM:SS under an hour and as HH:MM:SS from an hour on, every
  field padded with zeros to two digits. The specification does not say how a fraction
  of a second is rounded; the model drops it.
\<close>

definition digit :: "nat \<Rightarrow> char" where
  "digit d =
     (if d = 0 then CHR ''0'' else if d = 1 then CHR ''1'' else if d = 2 then CHR ''2''
      else if d = 3 then CHR ''3'' else if d = 4 then CHR ''4'' else if d = 5 then CHR ''5''
      else if d = 6 then CHR ''6'' else if d = 7 then CHR ''7'' else if d = 8 then CHR ''8''
      else CHR ''9'')"

fun decimal :: "nat \<Rightarrow> string" where
  "decimal n = (if n < 10 then [digit n] else decimal (n div 10) @ [digit (n mod 10)])"

declare decimal.simps [simp del]

definition pad2 :: "nat \<Rightarrow> string" where
  "pad2 n = (if n < 10 then CHR ''0'' # decimal n else decimal n)"

definition format :: "jsnum \<Rightarrow> string" where
  "format seconds =
     (case seconds of
        Finite r \<Rightarrow>
          if r < 0 then ''00:00''
          else
            (let total = nat \<lfloor>r\<rfloor>;
                 hh = total div 3600;
                 mm = (total div 60) mod 60;
                 ss = total mod 60
             in if hh = 0 then pad2 mm @ '':'' @ pad2 ss
                else pad2 hh @ '':'' @ pad2 mm @ '':'' @ pad2 ss)
      | NZero \<Rightarrow> ''00:00''
      | _ \<Rightarrow> ''00:00'')"

text \<open>Reading a rendered field back, to say what the digits of an output mean.\<close>

definition digit_value :: "char \<Rightarrow> nat" where
  "digit_value ch = of_char ch - 48"

definition is_digit :: "char \<Rightarrow> bool" where
  "is_digit ch \<longleftrightarrow> 48 \<le> (of_char ch :: nat) \<and> (of_char ch :: nat) \<le> 57"

definition read_decimal :: "string \<Rightarrow> nat" where
  "read_decimal s = foldl (\<lambda>acc ch. 10 * acc + digit_value ch) 0 s"

section \<open>Properties\<close>

text \<open>
  C1. After \<open>handleEnded\<close> the field \<open>playing\<close> holds the value \<open>loop\<close> had before,
  whatever \<open>playing\<close> was; every other field of the player state, the pending url and
  the like flag keep their values.
\<close>

theorem handleEnded_playing_is_loop:
  "playing (state (handleEnded c)) = loop (state c)
   \<and> (state (handleEnded c))\<lparr>playing := playing (state c)\<rparr> = state c
   \<and> url (handleEnded c) = url c
   \<and> liked (handleEnded c) = liked c"
  by (simp add: handleEnded_def)

text \<open>
  C2. After \<open>handleStop\<close> the source is absent and \<open>playing\<close> is false, from every
  prior state.
\<close>

theorem handleStop_clears_src_and_playing:
  "src (state (handleStop c)) = None \<and> playing (state (handleStop c)) = False"
  by (simp add: handleStop_def)

text \<open>
  C3. \<open>handleStop\<close> writes \<open>src\<close> and \<open>playing\<close> only: the progress fields, the
  duration and every remaining field keep their prior values.
\<close>

theorem handleStop_frame:
  "played (state (handleStop c)) = played (state c)
   \<and> loaded (state (handleStop c)) = loaded (state c)
   \<and> playedSeconds (state (handleStop c)) = playedSeconds (state c)
   \<and> loadedSeconds (state (handleStop c)) = loadedSeconds (state c)
   \<and> duration (state (handleStop c)) = duration (state c)
   \<and> muted (state (handleStop c)) = muted (state c)
   \<and> loop (state (handleStop c)) = loop (state c)
   \<and> volume (state (handleStop c)) = volume (state c)
   \<and> seeking (state (handleStop c)) = seeking (state c)
   \<and> pip (state (handleStop c)) = pip (state c)
   \<and> controls (state (handleStop c)) = controls (state c)
   \<and> light (state (handleStop c)) = light (state c)
   \<and> playbackRate (state (handleStop c)) = playbackRate (state c)
   \<and> url (handleStop c) = url c
   \<and> liked (handleStop c) = liked c"
  by (simp add: handleStop_def)

subsection \<open>Progress callbacks while seeking\<close>

lemma handleProgress_seeking: "seeking (state c) \<Longrightarrow> handleProgress p c = c"
  by (simp add: handleProgress_def split: option.splits)

lemma handleTimeUpdate_seeking: "seeking (state c) \<Longrightarrow> handleTimeUpdate p c = c"
  by (simp add: handleTimeUpdate_def split: option.splits)

lemma deliver_seeking: "seeking (state c) \<Longrightarrow> deliver c e = c"
  by (cases e) (simp_all add: handleProgress_seeking handleTimeUpdate_seeking)

lemma deliver_all_seeking: "seeking (state c) \<Longrightarrow> deliver_all c evs = c"
  unfolding deliver_all_def
  by (induction evs arbitrary: c) (simp_all add: deliver_seeking)

text \<open>
  C4. In a state with \<open>seeking\<close> true, a call of \<open>handleProgress\<close>, a call of
  \<open>handleTimeUpdate\<close>, and any run of such calls, leave \<open>played\<close>, \<open>loaded\<close>,
  \<open>playedSeconds\<close> and \<open>loadedSeconds\<close> as they were, whatever the element reports.
\<close>

theorem seeking_suppresses_progress_updates:
  assumes "seeking (state c)"
  shows "played (state (handleProgress p c)) = played (state c)
       \<and> loaded (state (handleProgress p c)) = loaded (state c)
       \<and> playedSeconds (state (handleProgress p c)) = playedSeconds (state c)
       \<and> loadedSeconds (state (handleProgress p c)) = loadedSeconds (state c)
       \<and> played (state (handleTimeUpdate p c)) = played (state c)
       \<and> loaded (state (handleTimeUpdate p c)) = loaded (state c)
       \<and> playedSeconds (state (handleTimeUpdate p c)) = playedSeconds (state c)
       \<and> loadedSeconds (state (handleTimeUpdate p c)) = loadedSeconds (state c)
       \<and> played (state (deliver_all c evs)) = played (state c)
       \<and> loaded (state (deliver_all c evs)) = loaded (state c)
       \<and> playedSeconds (state (deliver_all c evs)) = playedSeconds (state c)
       \<and> loadedSeconds (state (deliver_all c evs)) = loadedSeconds (state c)"
  using assms
  by (simp add: handleProgress_seeking handleTimeUpdate_seeking deliver_all_seeking)

text \<open>
  A run of three callbacks on a state that is seeking: the fields stay at their initial
  zeros, although the element is halfway through its media.
\<close>

theorem seeking_suppresses_progress_updates_witness:
  "seeking (state scrubbing)
   \<and> played (state (deliver_all scrubbing
        [Progress (Some halfway), TimeUpdate (Some halfway), TimeUpdate (Some halfway)])) = Finite 0
   \<and> loaded (state (deliver_all scrubbing
        [Progress (Some halfway), TimeUpdate (Some halfway), TimeUpdate (Some halfway)])) = Finite 0
   \<and> playedSeconds (state (handleTimeUpdate (Some halfway) scrubbing)) = Finite 0
   \<and> loadedSeconds (state (handleProgress (Some halfway) scrubbing)) = Finite 0"
proof -
  have s: "seeking (state scrubbing)"
    by (simp add: scrubbing_def)
  have v: "played (state scrubbing) = Finite 0" "loaded (state scrubbing) = Finite 0"
    "playedSeconds (state scrubbing) = Finite 0" "loadedSeconds (state scrubbing) = Finite 0"
    by (simp_all add: scrubbing_def initialState_def)
  show ?thesis
    using s v seeking_suppresses_progress_updates [OF s, of "Some halfway"
        "[Progress (Some halfway), TimeUpdate (Some halfway), TimeUpdate (Some halfway)]"]
    by simp
qed

text \<open>Without \<open>seeking\<close> the same element does move the fields.\<close>

lemma progress_updates_when_not_seeking:
  "played (state (deliver_all (mount []) [Progress (Some halfway), TimeUpdate (Some halfway)]))
     = Finite (1 / 4)
   \<and> loaded (state (deliver_all (mount []) [Progress (Some halfway), TimeUpdate (Some halfway)]))
     = Finite (1 / 2)"
  by (simp add: deliver_all_def mount_def initialState_def halfway_def element_def
      handleProgress_def handleTimeUpdate_def js_div_def js_not_def)

subsection \<open>Time updates\<close>

text \<open>
  C5. With \<open>seeking\<close> false, a fraction \<open>p\<close> in [0,1] and a finite duration \<open>d\<close>
  greater than 0, \<open>handleTimeUpdate\<close> on an element that reports the time \<open>p * d\<close> and
  the duration \<open>d\<close> sets \<open>played\<close> to \<open>p\<close> and \<open>playedSeconds\<close> to \<open>p * d\<close>. It
  changes nothing when the duration is a zero or \<open>NaN\<close>, or when \<open>seeking\<close> is true.
  Finite numbers are exact reals here, so the quotient is \<open>p\<close> itself.
\<close>

theorem handleTimeUpdate_sets_fraction:
  "(0 \<le> p \<and> p \<le> 1 \<and> 0 < d \<and> \<not> seeking (state c) \<longrightarrow>
      played (state (handleTimeUpdate
        (Some (player\<lparr>el_currentTime := Finite (p * d), el_duration := Finite d\<rparr>)) c)) = Finite p
      \<and> playedSeconds (state (handleTimeUpdate
        (Some (player\<lparr>el_currentTime := Finite (p * d), el_duration := Finite d\<rparr>)) c)) = Finite (p * d))
   \<and> (el_duration player = Finite 0 \<or> el_duration player = NZero \<or> el_duration player = NaN
        \<or> seeking (state c) \<longrightarrow> handleTimeUpdate (Some player) c = c)"
proof -
  have quot: "js_div (Finite (p * d)) (Finite d) = Finite p" if "0 \<le> p" "0 < d"
    using that by (simp add: js_div_def signed_zero_def mult_less_0_iff)
  have upd: "played (state (handleTimeUpdate
        (Some (player\<lparr>el_currentTime := Finite (p * d), el_duration := Finite d\<rparr>)) c)) = Finite p
      \<and> playedSeconds (state (handleTimeUpdate
        (Some (player\<lparr>el_currentTime := Finite (p * d), el_duration := Finite d\<rparr>)) c)) = Finite (p * d)"
    if "0 \<le> p" "0 < d" "\<not> seeking (state c)"
    using that by (simp add: handleTimeUpdate_def js_not_def quot)
  have noop: "handleTimeUpdate (Some player) c = c"
    if "el_duration player = Finite 0 \<or> el_duration player = NZero \<or> el_duration player = NaN
        \<or> seeking (state c)"
    using that by (auto simp: handleTimeUpdate_def js_not_def)
  from upd noop show ?thesis
    by blast
qed

text \<open>
  Thirty seconds into two minutes is a quarter; a duration of \<open>NaN\<close> or of either
  zero, or a state that is seeking, leaves the component as it was.
\<close>

theorem handleTimeUpdate_sets_fraction_witness:
  "(0::real) \<le> 1 / 4 \<and> (1::real) / 4 \<le> 1 \<and> (0::real) < 120 \<and> \<not> seeking (state (mount []))
   \<and> played (state (handleTimeUpdate (Some (element (Finite 30) (Finite 120) [])) (mount [])))
       = Finite (1 / 4)
   \<and> playedSeconds (state (handleTimeUpdate (Some (element (Finite 30) (Finite 120) [])) (mount [])))
       = Finite 30
   \<and> handleTimeUpdate (Some (element (Finite 30) NaN [])) (mount []) = mount []
   \<and> handleTimeUpdate (Some (element (Finite 30) (Finite 0) [])) (mount []) = mount []
   \<and> handleTimeUpdate (Some (element (Finite 30) NZero [])) (mount []) = mount []
   \<and> seeking (state scrubbing)
   \<and> handleTimeUpdate (Some (element (Finite 30) (Finite 120) [])) scrubbing = scrubbing"
proof -
  have e: "(element (Finite 0) (Finite 0) [])\<lparr>el_currentTime := Finite (1 / 4 * 120),
             el_duration := Finite 120\<rparr> = element (Finite 30) (Finite 120) []"
    by (simp add: element_def)
  have h: "(0::real) \<le> 1 / 4 \<and> (1::real) / 4 \<le> 1 \<and> (0::real) < 120 \<and> \<not> seeking (state (mount []))"
    by (simp add: mount_def initialState_def)
  have s: "seeking (state scrubbing)"
    by (simp add: scrubbing_def)
  have d: "el_duration (element (Finite 30) NaN []) = NaN"
    "el_duration (element (Finite 30) (Finite 0) []) = Finite 0"
    "el_duration (element (Finite 30) NZero []) = NZero"
    by (simp_all add: element_def)
  show ?thesis
    using e h s d
      handleTimeUpdate_sets_fraction [of "1 / 4" 120 "mount []" "element (Finite 0) (Finite 0) []"]
      handleTimeUpdate_sets_fraction [of _ _ "mount []" "element (Finite 30) NaN []"]
      handleTimeUpdate_sets_fraction [of _ _ "mount []" "element (Finite 30) (Finite 0) []"]
      handleTimeUpdate_sets_fraction [of _ _ "mount []" "element (Finite 30) NZero []"]
      handleTimeUpdate_sets_fraction [of _ _ scrubbing "element (Finite 30) (Finite 120) []"]
    by simp
qed

text \<open>
  The guard \<open>!player.duration\<close> tests truthiness, not sign. At the fraction 1/2 and
  the duration 0 it returns early, so \<open>played\<close> keeps its 0 and does not become 1/2:
  the first half needs a duration greater than 0, not at least 0. At the duration -5,
  which is not greater than 0 but is truthy, the update runs and the component changes:
  the no-op holds for the zeros and \<open>NaN\<close>, not for every duration that is not
  greater than 0.
\<close>

theorem handleTimeUpdate_zero_and_negative_duration:
  "\<not> seeking (state (mount []))
   \<and> played (state (handleTimeUpdate
        (Some (element (Finite (1 / 2 * 0)) (Finite 0) [])) (mount []))) \<noteq> Finite (1 / 2)
   \<and> \<not> (0::real) < - 5
   \<and> handleTimeUpdate (Some (element (Finite 1) (Finite (- 5)) [])) (mount []) \<noteq> mount []"
proof -
  have "played (state (handleTimeUpdate (Some (element (Finite 1) (Finite (- 5)) [])) (mount [])))
          \<noteq> played (state (mount []))"
    by (simp add: handleTimeUpdate_def element_def mount_def initialState_def js_not_def js_div_def)
  then have "handleTimeUpdate (Some (element (Finite 1) (Finite (- 5)) [])) (mount []) \<noteq> mount []"
    by auto
  then show ?thesis
    by (simp add: handleTimeUpdate_def element_def mount_def initialState_def js_not_def)
qed

subsection \<open>The range of the progress fractions\<close>

lemma js_div_in_unit_interval:
  "0 \<le> t \<Longrightarrow> t \<le> d \<Longrightarrow> 0 < d \<Longrightarrow> in_unit_interval (js_div (Finite t) (Finite d))"
  by (simp add: js_div_def signed_zero_def)

lemma js_div_infinite_duration:
  "0 \<le> t \<Longrightarrow> in_unit_interval (js_div (Finite t) PInf)"
  by (simp add: js_div_def signed_zero_def)

text \<open>
  \<open>handleTimeUpdate\<close> keeps \<open>played\<close> in [0,1] for a clock between 0 and the duration,
  also when the duration is 0, \<open>NaN\<close> or infinite: its guard on the duration covers the
  first two.
\<close>

lemma handleTimeUpdate_keeps_unit_interval:
  assumes "in_unit_interval (played (state c))" and "0 \<le> t"
    and "dur = NaN \<or> dur = PInf \<or> (\<exists>d. dur = Finite d \<and> t \<le> d)"
  shows "in_unit_interval (played (state (handleTimeUpdate
           (Some (player\<lparr>el_currentTime := Finite t, el_duration := dur\<rparr>)) c)))"
  using assms
  by (auto simp: handleTimeUpdate_def js_not_def js_div_in_unit_interval js_div_infinite_duration)

text \<open>
  \<open>handleProgress\<close> keeps \<open>loaded\<close> in [0,1] when the last buffered range ends
  between 0 and a duration that is greater than 0.
\<close>

lemma handleProgress_keeps_unit_interval:
  assumes "in_unit_interval (loaded (state c))" and "0 \<le> e" and "e \<le> d" and "0 < d"
  shows "in_unit_interval (loaded (state (handleProgress
           (Some (player\<lparr>el_buffered := Some (rs @ [(b, Finite e)]), el_duration := Finite d\<rparr>)) c)))"
proof (cases "seeking (state c)")
  case True
  with assms(1) show ?thesis
    by (simp add: handleProgress_seeking)
next
  case False
  obtain r rs' where "rs @ [(b, Finite e)] = r # rs'"
    by (cases rs) auto
  moreover from this have "last (r # rs') = (b, Finite e)"
    by (metis last_snoc)
  ultimately show ?thesis
    using False assms by (simp add: handleProgress_def js_div_in_unit_interval)
qed

text \<open>No other handler writes \<open>played\<close> or \<open>loaded\<close>.\<close>

lemma other_handlers_keep_progress:
  "h \<in> {handlePlayPause, handleStop, handleToggleMuted, handleToggleLoop, handleEnded,
         handleDurationChange p, handleLoadCustomUrl, handlePresetSelect k, onPlay, onPause}
   \<Longrightarrow> played (state (h c)) = played (state c) \<and> loaded (state (h c)) = loaded (state c)"
  by (auto simp: handlePlayPause_def handleStop_def handleToggleMuted_def handleToggleLoop_def
      handleEnded_def handleDurationChange_def handleLoadCustomUrl_def handlePresetSelect_def
      onPlay_def onPause_def split: option.splits)

text \<open>
  C6. \<open>played\<close> and \<open>loaded\<close> are meant to stay in [0,1] for every duration the element
  can report. \<open>handleProgress\<close> has no guard on the duration: from the initial state,
  with one buffered range and a duration of \<open>NaN\<close> or 0, it stores \<open>NaN\<close> or
  \<open>Infinity\<close> in \<open>loaded\<close>, outside [0,1]. \<open>handleTimeUpdate\<close> returns early on the
  same elements.
\<close>

theorem handleProgress_unguarded_duration:
  "in_unit_interval (loaded (state (mount [])))
   \<and> loaded (state (handleProgress
        (Some (element (Finite 0) NaN [(Finite 0, Finite 5)])) (mount []))) = NaN
   \<and> \<not> in_unit_interval (loaded (state (handleProgress
        (Some (element (Finite 0) NaN [(Finite 0, Finite 5)])) (mount []))))
   \<and> loaded (state (handleProgress
        (Some (element (Finite 0) (Finite 0) [(Finite 0, Finite 0)])) (mount []))) = NaN
   \<and> loaded (state (handleProgress
        (Some (element (Finite 0) (Finite 0) [(Finite 0, Finite 5)])) (mount []))) = PInf
   \<and> handleTimeUpdate (Some (element (Finite 0) NaN [(Finite 0, Finite 5)])) (mount []) = mount []
   \<and> handleTimeUpdate (Some (element (Finite 0) (Finite 0) [(Finite 0, Finite 5)])) (mount [])
       = mount []"
  by (simp add: handleProgress_def handleTimeUpdate_def element_def mount_def initialState_def
      js_not_def js_div_def signed_inf_def)

subsection \<open>Presets\<close>

lemma find_key_map_of:
  "map_option preset_url (find (\<lambda>video. key video = k) ps)
     = map_of (map (\<lambda>video. (key video, preset_url video)) ps) k"
  by (induction ps) simp_all

text \<open>
  C7. For a key of the catalog, \<open>handlePresetSelect\<close> sets the pending url and \<open>src\<close>
  to the URL the catalog gives for that key and changes no other field; for a key that
  is not in the catalog it returns the component unchanged, url included.
\<close>

theorem handlePresetSelect_catalog:
  "(catalog k = Some u \<longrightarrow>
      url (handlePresetSelect k c) = u
      \<and> src (state (handlePresetSelect k c)) = Some u
      \<and> (state (handlePresetSelect k c))\<lparr>src := src (state c)\<rparr> = state c
      \<and> liked (handlePresetSelect k c) = liked c)
   \<and> (catalog k = None \<longrightarrow> handlePresetSelect k c = c)"
proof -
  have "catalog k = map_option preset_url (find (\<lambda>video. key video = k) presetVideos)"
    by (simp add: catalog_def find_key_map_of)
  then show ?thesis
    by (cases "find (\<lambda>video. key video = k) presetVideos")
       (simp_all add: handlePresetSelect_def)
qed

text \<open>
  The one key of the catalog loads its video; a key that the catalog does not hold
  leaves a component with a typed url as it is.
\<close>

theorem handlePresetSelect_catalog_witness:
  "catalog rainforest = Some (of_ascii ''https://www.youtube.com/watch?v=kHr4yag0fqA'')
   \<and> url (handlePresetSelect rainforest (mount []))
       = of_ascii ''https://www.youtube.com/watch?v=kHr4yag0fqA''
   \<and> src (state (handlePresetSelect rainforest (mount [])))
       = Some (of_ascii ''https://www.youtube.com/watch?v=kHr4yag0fqA'')
   \<and> catalog (of_ascii ''jazz'') = None
   \<and> handlePresetSelect (of_ascii ''jazz'') (typed_url (of_ascii ''abc'')) = typed_url (of_ascii ''abc'')"
proof -
  have a: "catalog rainforest = Some (of_ascii ''https://www.youtube.com/watch?v=kHr4yag0fqA'')"
    by (simp add: catalog_def presetVideos_def rainforest_def)
  have b: "catalog (of_ascii ''jazz'') = None"
    by (simp add: catalog_def presetVideos_def of_ascii_def)
  show ?thesis
    using a b
      handlePresetSelect_catalog [of rainforest
        "of_ascii ''https://www.youtube.com/watch?v=kHr4yag0fqA''" "mount []"]
      handlePresetSelect_catalog [of "of_ascii ''jazz''" _ "typed_url (of_ascii ''abc'')"]
    by simp
qed

subsection \<open>Loading the typed url\<close>

lemma trim_empty_iff: "trim s = [] \<longleftrightarrow> (\<forall>ch\<in>set s. isWhiteSpace ch)"
proof -
  have "(\<forall>ch\<in>set (dropWhile isWhiteSpace s). isWhiteSpace ch) \<longleftrightarrow> dropWhile isWhiteSpace s = []"
    by (metis dropWhile_eq_Nil_conv dropWhile_idem)
  then show ?thesis
    by (simp add: trim_def)
qed

text \<open>
  C8. When the pending url is not empty after trimming, \<open>handleLoadCustomUrl\<close> sets
  \<open>src\<close> to that url and leaves \<open>playing\<close>, and every other field, at its prior
  value. When the url is empty or holds white space only, the component is unchanged:
  the handler returns no error, it does nothing.
\<close>

theorem handleLoadCustomUrl_loads_or_rejects:
  "(trim (url c) \<noteq> [] \<longrightarrow>
      src (state (handleLoadCustomUrl c)) = Some (url c)
      \<and> playing (state (handleLoadCustomUrl c)) = playing (state c)
      \<and> (state (handleLoadCustomUrl c))\<lparr>src := src (state c)\<rparr> = state c
      \<and> url (handleLoadCustomUrl c) = url c)
   \<and> (url c = [] \<or> list_all isWhiteSpace (url c) \<longrightarrow> handleLoadCustomUrl c = c)"
proof -
  have "trim (url c) = []" if "url c = [] \<or> list_all isWhiteSpace (url c)"
    using that by (auto simp: trim_empty_iff list_all_iff)
  then show ?thesis
    by (auto simp: handleLoadCustomUrl_def)
qed

text \<open>
  A typed address is loaded while \<open>playing\<close> stays true; a space, a tab and an
  ideographic space are rejected, and so is the empty text.
\<close>

theorem handleLoadCustomUrl_loads_or_rejects_witness:
  "trim (url (onPlay (typed_url (of_ascii ''https://example.com/v.mp4'')))) \<noteq> []
   \<and> src (state (handleLoadCustomUrl (onPlay (typed_url (of_ascii ''https://example.com/v.mp4'')))))
       = Some (of_ascii ''https://example.com/v.mp4'')
   \<and> playing (state (handleLoadCustomUrl (onPlay (typed_url (of_ascii ''https://example.com/v.mp4''))))) = True
   \<and> list_all isWhiteSpace (url (typed_url [0x20, 0x09, 0x3000]))
   \<and> handleLoadCustomUrl (typed_url [0x20, 0x09, 0x3000]) = typed_url [0x20, 0x09, 0x3000]
   \<and> handleLoadCustomUrl (typed_url []) = typed_url []"
proof -
  let ?c = "onPlay (typed_url (of_ascii ''https://example.com/v.mp4''))"
  let ?w = "typed_url [0x20, 0x09, 0x3000]"
  have a: "trim (url ?c) \<noteq> []"
    by (simp add: onPlay_def typed_url_def of_ascii_def trim_def isWhiteSpace_def)
  have b: "list_all isWhiteSpace (url ?w)"
    by (simp add: typed_url_def isWhiteSpace_def)
  have c: "url (typed_url []) = []"
    by (simp add: typed_url_def)
  have u: "url ?c = of_ascii ''https://example.com/v.mp4''" "playing (state ?c) = True"
    by (simp_all add: onPlay_def typed_url_def)
  show ?thesis
    using a b c u handleLoadCustomUrl_loads_or_rejects [of ?c]
      handleLoadCustomUrl_loads_or_rejects [of ?w]
      handleLoadCustomUrl_loads_or_rejects [of "typed_url []"]
    by simp
qed

text \<open>
  C10. A url that is not empty after trimming is stored in \<open>src\<close> as typed; \<open>trim\<close>
  serves the emptiness test only. So whenever trimming would change the text, \<open>src\<close>
  differs from the trimmed text, and such a text exists.
\<close>

theorem handleLoadCustomUrl_keeps_surrounding_whitespace:
  "(trim (url c) \<noteq> [] \<longrightarrow> src (state (handleLoadCustomUrl c)) = Some (url c))
   \<and> (trim (url c) \<noteq> [] \<and> trim (url c) \<noteq> url c \<longrightarrow>
        src (state (handleLoadCustomUrl c)) \<noteq> Some (trim (url c)))
   \<and> (\<exists>c'. trim (url c') \<noteq> [] \<and> src (state (handleLoadCustomUrl c')) \<noteq> Some (trim (url c')))"
proof -
  let ?p = "typed_url (of_ascii '' https://example.com/v.mp4 '')"
  have "trim (url ?p) = of_ascii ''https://example.com/v.mp4''"
    by (simp add: typed_url_def of_ascii_def trim_def isWhiteSpace_def)
  moreover have "url ?p \<noteq> of_ascii ''https://example.com/v.mp4''"
    by (simp add: typed_url_def of_ascii_def)
  ultimately have "trim (url ?p) \<noteq> [] \<and> src (state (handleLoadCustomUrl ?p)) \<noteq> Some (trim (url ?p))"
    by (simp add: handleLoadCustomUrl_def of_ascii_def)
  then have some: "\<exists>c'. trim (url c') \<noteq> []
      \<and> src (state (handleLoadCustomUrl c')) \<noteq> Some (trim (url c'))"
    by (rule exI)
  have kept: "trim (url c) \<noteq> [] \<longrightarrow> src (state (handleLoadCustomUrl c)) = Some (url c)"
    by (simp add: handleLoadCustomUrl_def)
  then have differs: "trim (url c) \<noteq> [] \<and> trim (url c) \<noteq> url c \<longrightarrow>
        src (state (handleLoadCustomUrl c)) \<noteq> Some (trim (url c))"
    by auto
  from kept differs some show ?thesis
    by (intro conjI)
qed

text \<open>An address typed with a space before and after it is stored with both spaces.\<close>

theorem handleLoadCustomUrl_keeps_surrounding_whitespace_witness:
  "trim (url (typed_url (of_ascii '' https://example.com/v.mp4 ''))) \<noteq> []
   \<and> trim (url (typed_url (of_ascii '' https://example.com/v.mp4 '')))
       \<noteq> url (typed_url (of_ascii '' https://example.com/v.mp4 ''))
   \<and> src (state (handleLoadCustomUrl (typed_url (of_ascii '' https://example.com/v.mp4 ''))))
       = Some (of_ascii '' https://example.com/v.mp4 '')
   \<and> src (state (handleLoadCustomUrl (typed_url (of_ascii '' https://example.com/v.mp4 ''))))
       \<noteq> Some (trim (url (typed_url (of_ascii '' https://example.com/v.mp4 ''))))"
proof -
  let ?p = "typed_url (of_ascii '' https://example.com/v.mp4 '')"
  have t: "trim (url ?p) = of_ascii ''https://example.com/v.mp4''"
    by (simp add: typed_url_def of_ascii_def trim_def isWhiteSpace_def)
  have u: "url ?p = of_ascii '' https://example.com/v.mp4 ''"
    by (simp add: typed_url_def)
  have a: "trim (url ?p) \<noteq> []"
    unfolding t by (simp add: of_ascii_def)
  have b: "trim (url ?p) \<noteq> url ?p"
    by (simp add: typed_url_def of_ascii_def trim_def isWhiteSpace_def)
  show ?thesis
    using a b u handleLoadCustomUrl_keeps_surrounding_whitespace [of ?p]
    by simp
qed

subsection \<open>The duration formatter\<close>

lemma digit_value_digit: "d < 10 \<Longrightarrow> digit_value (digit d) = d"
  by (auto simp: digit_value_def digit_def)

lemma is_digit_digit: "d < 10 \<Longrightarrow> is_digit (digit d)"
  by (simp add: is_digit_def digit_def)

lemma pad2_two_digits: "n < 100 \<Longrightarrow> pad2 n = [digit (n div 10), digit (n mod 10)]"
proof (cases "n < 10")
  case True
  then show ?thesis by (simp add: pad2_def decimal.simps [of n] digit_def)
next
  case False
  assume "n < 100"
  with False have "n div 10 < 10" by simp
  with False show ?thesis
    by (simp add: pad2_def decimal.simps [of n] decimal.simps [of "n div 10"])
qed

lemma decimal_digits: "list_all is_digit (decimal n)"
proof (induction n rule: decimal.induct)
  case (1 n)
  then show ?case
    by (subst decimal.simps) (auto simp: is_digit_digit)
qed

lemma decimal_length: "10 \<le> n \<Longrightarrow> 2 \<le> length (decimal n)"
  by (subst decimal.simps, subst decimal.simps) simp

lemma read_decimal_snoc: "read_decimal (s @ [ch]) = 10 * read_decimal s + digit_value ch"
  by (simp add: read_decimal_def)

lemma read_decimal_decimal: "read_decimal (decimal n) = n"
proof (induction n rule: decimal.induct)
  case (1 n)
  show ?case
  proof (cases "n < 10")
    case True
    then show ?thesis
      by (subst decimal.simps) (simp add: read_decimal_def digit_value_digit)
  next
    case False
    then have "read_decimal (decimal (n div 10)) = n div 10"
      using "1.IH" by simp
    with False show ?thesis
      by (subst decimal.simps) (simp add: read_decimal_snoc digit_value_digit)
  qed
qed

lemma read_decimal_pad2: "read_decimal (pad2 n) = n"
proof -
  have "read_decimal (CHR ''0'' # s) = read_decimal s" for s
    by (simp add: read_decimal_def digit_value_def)
  then show ?thesis
    by (simp add: pad2_def read_decimal_decimal)
qed

lemma pad2_digits: "list_all is_digit (pad2 n)"
  using decimal_digits [of n] by (simp add: pad2_def is_digit_def)

lemma pad2_length_small: "n < 100 \<Longrightarrow> length (pad2 n) = 2"
  by (simp add: pad2_two_digits)

lemma pad2_length: "2 \<le> length (pad2 n)"
proof (cases "n < 10")
  case True
  then show ?thesis by (simp add: pad2_def decimal.simps [of n])
next
  case False
  then show ?thesis by (simp add: pad2_def decimal_length)
qed

lemma hms_sum: "n div 3600 * 3600 + (n div 60) mod 60 * 60 + n mod 60 = (n::nat)"
proof -
  define q m s where "q = n div 60 div 60" and "m = n div 60 mod 60" and "s = n mod 60"
  have "n div 3600 = q"
    using div_mult2_eq [of n 60 60] by (simp add: q_def)
  moreover have "n div 60 = q * 60 + m"
    by (simp add: q_def m_def)
  moreover have "n = n div 60 * 60 + s"
    by (simp add: s_def)
  ultimately have "q * 3600 + m * 60 + s = n \<and> n div 3600 = q"
    by simp
  then show ?thesis
    by (simp add: m_def s_def)
qed

lemma format_under_an_hour:
  assumes "0 \<le> r" "r < 3600"
  shows "\<exists>ms ss. format (Finite r) = ms @ '':'' @ ss
           \<and> length ms = 2 \<and> length ss = 2
           \<and> list_all is_digit (ms @ ss)
           \<and> read_decimal ms * 60 + read_decimal ss = nat \<lfloor>r\<rfloor>
           \<and> read_decimal ss < 60"
proof -
  define total where "total = nat \<lfloor>r\<rfloor>"
  have "\<lfloor>r\<rfloor> < 3600" using assms by (simp add: floor_less_iff)
  then have small: "total < 3600" unfolding total_def by linarith
  then have hh: "total div 3600 = 0" by simp
  have mm: "(total div 60) mod 60 = total div 60" using small by simp
  have fmt: "format (Finite r) = pad2 (total div 60) @ '':'' @ pad2 (total mod 60)"
    using assms hh mm by (simp add: format_def Let_def total_def)
  have "total div 60 < 100" using small by simp
  then have l1: "length (pad2 (total div 60)) = 2" by (rule pad2_length_small)
  have l2: "length (pad2 (total mod 60)) = 2" by (rule pad2_length_small) simp
  have d: "list_all is_digit (pad2 (total div 60) @ pad2 (total mod 60))"
    by (simp add: pad2_digits)
  have v: "read_decimal (pad2 (total div 60)) * 60 + read_decimal (pad2 (total mod 60)) = total"
    by (simp add: read_decimal_pad2)
  have s: "read_decimal (pad2 (total mod 60)) < 60"
    by (simp add: read_decimal_pad2)
  from fmt l1 l2 d v s show ?thesis
    unfolding total_def by blast
qed

lemma format_an_hour_or_more:
  assumes "3600 \<le> r"
  shows "\<exists>hs ms ss. format (Finite r) = hs @ '':'' @ ms @ '':'' @ ss
           \<and> 2 \<le> length hs \<and> length ms = 2 \<and> length ss = 2
           \<and> list_all is_digit (hs @ ms @ ss)
           \<and> read_decimal hs * 3600 + read_decimal ms * 60 + read_decimal ss = nat \<lfloor>r\<rfloor>
           \<and> read_decimal ms < 60 \<and> read_decimal ss < 60"
proof -
  define total where "total = nat \<lfloor>r\<rfloor>"
  have "3600 \<le> \<lfloor>r\<rfloor>" using assms by (simp add: le_floor_iff)
  then have big: "3600 \<le> total" unfolding total_def by linarith
  then have hh: "total div 3600 \<noteq> 0" by simp
  have pos: "\<not> r < 0" using assms by simp
  have fmt: "format (Finite r) =
      pad2 (total div 3600) @ '':'' @ pad2 ((total div 60) mod 60) @ '':'' @ pad2 (total mod 60)"
    using pos hh by (simp add: format_def Let_def total_def)
  have l0: "2 \<le> length (pad2 (total div 3600))" by (rule pad2_length)
  have l1: "length (pad2 ((total div 60) mod 60)) = 2" by (rule pad2_length_small) simp
  have l2: "length (pad2 (total mod 60)) = 2" by (rule pad2_length_small) simp
  have d: "list_all is_digit
      (pad2 (total div 3600) @ pad2 ((total div 60) mod 60) @ pad2 (total mod 60))"
    by (simp add: pad2_digits)
  have "total div 3600 * 3600 + (total div 60) mod 60 * 60 + total mod 60 = total"
    by (rule hms_sum)
  then have v: "read_decimal (pad2 (total div 3600)) * 3600
      + read_decimal (pad2 ((total div 60) mod 60)) * 60
      + read_decimal (pad2 (total mod 60)) = total"
    by (simp add: read_decimal_pad2)
  have s: "read_decimal (pad2 ((total div 60) mod 60)) < 60" "read_decimal (pad2 (total mod 60)) < 60"
    by (simp_all add: read_decimal_pad2)
  from fmt l0 l1 l2 d v s show ?thesis
    unfolding total_def by blast
qed

lemma format_default: "r < 0 \<Longrightarrow> format (Finite r) = ''00:00''"
  by (simp add: format_def)

text \<open>
  C9. The formatter is a total function from seconds to a display string. It renders
  65 as 01:05, 3661 as 01:01:01 and 0 as 00:00, and gives 00:00 for \<open>NaN\<close>, for -5,
  for every negative number and for both infinities. A duration under an hour is two
  digits of minutes, a colon and two digits of seconds, which read back to the whole
  seconds of the input; from an hour on the output is at least two digits of hours
  followed by two of minutes and two of seconds, which read back likewise.
\<close>

theorem format_duration:
  "format (Finite 65) = ''01:05''
   \<and> format (Finite 3661) = ''01:01:01''
   \<and> format (Finite 0) = ''00:00''
   \<and> format NaN = ''00:00''
   \<and> format (Finite (- 5)) = ''00:00''
   \<and> format PInf = ''00:00'' \<and> format NInf = ''00:00''
   \<and> (\<forall>r<0. format (Finite r) = ''00:00'')
   \<and> (\<forall>r. 0 \<le> r \<and> r < 3600 \<longrightarrow>
        (\<exists>ms ss. format (Finite r) = ms @ '':'' @ ss
           \<and> length ms = 2 \<and> length ss = 2
           \<and> list_all is_digit (ms @ ss)
           \<and> read_decimal ms * 60 + read_decimal ss = nat \<lfloor>r\<rfloor>
           \<and> read_decimal ss < 60))
   \<and> (\<forall>r\<ge>3600.
        (\<exists>hs ms ss. format (Finite r) = hs @ '':'' @ ms @ '':'' @ ss
           \<and> 2 \<le> length hs \<and> length ms = 2 \<and> length ss = 2
           \<and> list_all is_digit (hs @ ms @ ss)
           \<and> read_decimal hs * 3600 + read_decimal ms * 60 + read_decimal ss = nat \<lfloor>r\<rfloor>
           \<and> read_decimal ms < 60 \<and> read_decimal ss < 60))"
proof -
  have ex: "format (Finite 65) = ''01:05''" "format (Finite 3661) = ''01:01:01''"
    "format (Finite 0) = ''00:00''"
    by (simp_all add: format_def pad2_def decimal.simps digit_def Let_def)
  have dflt: "format NaN = ''00:00''" "format (Finite (- 5)) = ''00:00''"
    "format PInf = ''00:00''" "format NInf = ''00:00''"
    by (simp_all add: format_def)
  have neg: "\<forall>r<0. format (Finite r) = ''00:00''"
    by (simp add: format_default)
  have short: "\<forall>r. 0 \<le> r \<and> r < 3600 \<longrightarrow>
        (\<exists>ms ss. format (Finite r) = ms @ '':'' @ ss
           \<and> length ms = 2 \<and> length ss = 2
           \<and> list_all is_digit (ms @ ss)
           \<and> read_decimal ms * 60 + read_decimal ss = nat \<lfloor>r\<rfloor>
           \<and> read_decimal ss < 60)"
    using format_under_an_hour by blast
  have long: "\<forall>r\<ge>3600.
        (\<exists>hs ms ss. format (Finite r) = hs @ '':'' @ ms @ '':'' @ ss
           \<and> 2 \<le> length hs \<and> length ms = 2 \<and> length ss = 2
           \<and> list_all is_digit (hs @ ms @ ss)
           \<and> read_decimal hs * 3600 + read_decimal ms * 60 + read_decimal ss = nat \<lfloor>r\<rfloor>
           \<and> read_decimal ms < 60 \<and> read_decimal ss < 60)"
    using format_an_hour_or_more by blast
  from ex dflt neg short long show ?thesis
    by - (intro conjI; assumption)
qed

text \<open>
  Half a second below zero, a fraction of a second under a minute, and a hundred hours.
\<close>

theorem format_duration_witness:
  "(- (1 / 2) :: real) < 0 \<and> format (Finite (- (1 / 2))) = ''00:00''
   \<and> (0::real) \<le> 599 / 10 \<and> (599::real) / 10 < 3600
   \<and> (\<exists>ms ss. format (Finite (599 / 10)) = ms @ '':'' @ ss
         \<and> length ms = 2 \<and> length ss = 2 \<and> list_all is_digit (ms @ ss)
         \<and> read_decimal ms * 60 + read_decimal ss = 59 \<and> read_decimal ss < 60)
   \<and> (3600::real) \<le> 360000
   \<and> (\<exists>hs ms ss. format (Finite 360000) = hs @ '':'' @ ms @ '':'' @ ss
         \<and> 2 \<le> length hs \<and> length ms = 2 \<and> length ss = 2
         \<and> list_all is_digit (hs @ ms @ ss)
         \<and> read_decimal hs * 3600 + read_decimal ms * 60 + read_decimal ss = 360000
         \<and> read_decimal ms < 60 \<and> read_decimal ss < 60)"
proof -
  have neg: "format (Finite (- (1 / 2))) = ''00:00''"
    using format_duration by simp
  have "(0::real) \<le> 599 / 10 \<and> (599::real) / 10 < 3600"
    by simp
  then have "\<exists>ms ss. format (Finite (599 / 10)) = ms @ '':'' @ ss
         \<and> length ms = 2 \<and> length ss = 2 \<and> list_all is_digit (ms @ ss)
         \<and> read_decimal ms * 60 + read_decimal ss = nat \<lfloor>599 / 10 :: real\<rfloor>
         \<and> read_decimal ss < 60"
    using format_duration by blast
  then have short: "\<exists>ms ss. format (Finite (599 / 10)) = ms @ '':'' @ ss
         \<and> length ms = 2 \<and> length ss = 2 \<and> list_all is_digit (ms @ ss)
         \<and> read_decimal ms * 60 + read_decimal ss = 59 \<and> read_decimal ss < 60"
    by simp
  have "(3600::real) \<le> 360000"
    by simp
  then have "\<exists>hs ms ss. format (Finite 360000) = hs @ '':'' @ ms @ '':'' @ ss
           \<and> 2 \<le> length hs \<and> length ms = 2 \<and> length ss = 2
           \<and> list_all is_digit (hs @ ms @ ss)
           \<and> read_decimal hs * 3600 + read_decimal ms * 60 + read_decimal ss
               = nat \<lfloor>360000 :: real\<rfloor>
           \<and> read_decimal ms < 60 \<and> read_decimal ss < 60"
    using format_duration by blast
  then have long: "\<exists>hs ms ss. format (Finite 360000) = hs @ '':'' @ ms @ '':'' @ ss
         \<and> 2 \<le> length hs \<and> length ms = 2 \<and> length ss = 2
         \<and> list_all is_digit (hs @ ms @ ss)
         \<and> read_decimal hs * 3600 + read_decimal ms * 60 + read_decimal ss = 360000
         \<and> read_decimal ms < 60 \<and> read_decimal ss < 60"
    by simp
  from neg short long show ?thesis
    by simp
qed

end
